theory Spec2Isabelle
  imports Main "HOL-Library.Sublist" "HOL-Library.Word"
begin

section \<open>Python values, exceptions and the environment\<close>

text \<open>
  The program is one Python module, \<^verbatim>\<open>healthcaremcp.py\<close>. Its handlers talk to two external
  clients (a Supabase data-store client and an httpx HTTP client), read the process
  environment and format strings. Strings are byte lists holding UTF-8 text; a character
  outside ASCII is written as its bytes.

  An exception is a value: its class name and the text \<^verbatim>\<open>str(e)\<close> gives. Every exception
  of this model is an instance of a subclass of \<^verbatim>\<open>Exception\<close>, the class the handlers'
  \<^verbatim>\<open>except Exception\<close> clauses catch. A computation that may raise returns
  \<open>pyexc + 'a\<close>, \<open>Inl\<close> being the raise.
\<close>

datatype pyexc = PyExc (exc_class: string) (exc_str: string)

type_synonym pyfloat = "64 word"
  \<comment> \<open>a Python float, as its IEEE-754 binary64 bit pattern\<close>

datatype json =
    JNull
  | JBool bool
  | JInt int
  | JFloat pyfloat
  | JStr string
  | JArr "json list"
  | JObj "(string \<times> json) list"

text \<open>
  \<open>JObj\<close> is a Python \<^verbatim>\<open>dict\<close> with string keys, listed in insertion order;
  \<open>map_of\<close> looks a key up.
\<close>

type_synonym environ = "string \<rightharpoonup> string"

text \<open>\<^verbatim>\<open>bool(os.getenv(var))\<close>: an unset variable reads as \<^verbatim>\<open>None\<close>, and \<^verbatim>\<open>None\<close> and the empty
  string are both falsy.\<close>

definition getenv_truthy :: "environ \<Rightarrow> string \<Rightarrow> bool" where
  "getenv_truthy env var = (case env var of None \<Rightarrow> False | Some s \<Rightarrow> s \<noteq> [])"

text \<open>\<^verbatim>\<open>sep.join(xs)\<close> on a list of strings.\<close>

fun join :: "string \<Rightarrow> string list \<Rightarrow> string" where
  "join sep [] = []"
| "join sep [x] = x"
| "join sep (x # y # ys) = x @ sep @ join sep (y # ys)"

definition nl :: string where
  "nl = [CHR 0x0A]"

section \<open>The external clients\<close>

text \<open>
  A Supabase query is built by \<^verbatim>\<open>table(..).select(..).eq(..).order(..)\<close> or
  \<^verbatim>\<open>table(..).insert(..)\<close> and sent by \<^verbatim>\<open>execute()\<close>. The client is the function from the
  request sent to what \<^verbatim>\<open>execute()\<close> does: raise, or return a response whose \<^verbatim>\<open>data\<close> is a
  list of rows.
\<close>

type_synonym row = "(string \<times> json) list"

datatype db_request =
    Select (sel_table: string) (sel_columns: string)
           (sel_eq: "(string \<times> string) list") (sel_order: "(string \<times> bool) option")
  | Insert (ins_table: string) (ins_row: row)

type_synonym supabase_client = "db_request \<Rightarrow> pyexc + row list"

text \<open>
  An HTTP request of the httpx client, and the part of its response the handlers use:
  what \<^verbatim>\<open>raise_for_status()\<close> does and what \<^verbatim>\<open>json()\<close> does.
\<close>

datatype http_request =
    Get (get_url: string) (get_params: "(string \<times> json) list") (get_headers: "(string \<times> string) list")
  | Post (post_url: string) (post_json: json) (post_headers: "(string \<times> string) list")

record http_response =
  raise_for_status :: "pyexc option"
  json_of :: "pyexc + json"

type_synonym http_client = "http_request \<Rightarrow> pyexc + http_response"

section \<open>The lifespan context\<close>

text \<open>
  \<^verbatim>\<open>AppContext\<close> is a dataclass with the two clients. The object a handler finds at
  \<^verbatim>\<open>ctx.request_context.lifespan_context\<close> is whatever the lifespan yielded; the handlers
  subscript it with a string key. A dataclass instance has no \<^verbatim>\<open>__getitem__\<close>, so
  subscripting it raises \<^verbatim>\<open>TypeError\<close>; a \<^verbatim>\<open>dict\<close> returns the entry or raises
  \<^verbatim>\<open>KeyError\<close>. The dict of this model holds a data-store client under
  \<^verbatim>\<open>"supabase"\<close> and an HTTP client under \<^verbatim>\<open>"http_client"\<close>, each possibly absent.
\<close>

record AppContext =
  supabase :: supabase_client
  http_client :: http_client

datatype lifespan_context =
    Dataclass AppContext
  | Mapping "supabase_client option" "http_client option"

definition not_subscriptable :: pyexc where
  "not_subscriptable =
     PyExc ''TypeError'' ([CHR 0x27] @ ''AppContext'' @ [CHR 0x27] @ '' object is not subscriptable'')"

definition key_error :: "string \<Rightarrow> pyexc" where
  "key_error k = PyExc ''KeyError'' ([CHR 0x27] @ k @ [CHR 0x27])"

text \<open>\<^verbatim>\<open>lifespan_context["supabase"]\<close> and \<^verbatim>\<open>lifespan_context["http_client"]\<close>.\<close>

fun subscript_supabase :: "lifespan_context \<Rightarrow> pyexc + supabase_client" where
  "subscript_supabase (Dataclass c) = Inl not_subscriptable"
| "subscript_supabase (Mapping None h) = Inl (key_error ''supabase'')"
| "subscript_supabase (Mapping (Some s) h) = Inr s"

fun subscript_http_client :: "lifespan_context \<Rightarrow> pyexc + http_client" where
  "subscript_http_client (Dataclass c) = Inl not_subscriptable"
| "subscript_http_client (Mapping s None) = Inl (key_error ''http_client'')"
| "subscript_http_client (Mapping s (Some h)) = Inr h"

section \<open>Application lifecycle: \<^verbatim>\<open>app_lifespan\<close>\<close>

text \<open>
  The lifespan is an async context manager. What it does to the outside world is a list
  of events, in order. The constructors it calls and the close operation are parameters:
  \<^verbatim>\<open>create_client(url, key)\<close>, \<^verbatim>\<open>httpx.AsyncClient(timeout=..)\<close> (the timeout in seconds)
  and what \<^verbatim>\<open>aclose()\<close> does. The body of the \<^verbatim>\<open>async with\<close> block (the running server)
  is a function of the yielded context; it ends normally (\<open>None\<close>) or with an exception.
  The result is the event list and the exception leaving the scope, if any.
\<close>

datatype lifecycle_event =
    CreateClient string string
  | NewAsyncClient int
  | Yield
  | Aclose

record runtime =
  create_client :: "string \<Rightarrow> string \<Rightarrow> pyexc + supabase_client"
  AsyncClient :: "int \<Rightarrow> pyexc + http_client"
  aclose :: "http_client \<Rightarrow> pyexc option"

definition config_error :: pyexc where
  "config_error =
     PyExc ''ValueError'' ''SUPABASE_URL and SUPABASE_ANON_KEY environment variables are required''"

definition app_lifespan ::
  "environ \<Rightarrow> runtime \<Rightarrow> (lifespan_context \<Rightarrow> pyexc option) \<Rightarrow> lifecycle_event list \<times> pyexc option"
where
  "app_lifespan env rt body =
     (if \<not> getenv_truthy env ''SUPABASE_URL'' \<or> \<not> getenv_truthy env ''SUPABASE_ANON_KEY''
      then ([], Some config_error)
      else
        let supabase_url = the (env ''SUPABASE_URL'');
            supabase_key = the (env ''SUPABASE_ANON_KEY'')
        in case create_client rt supabase_url supabase_key of
             Inl e \<Rightarrow> ([CreateClient supabase_url supabase_key], Some e)
           | Inr sb \<Rightarrow>
               (case AsyncClient rt 30 of
                  Inl e \<Rightarrow> ([CreateClient supabase_url supabase_key, NewAsyncClient 30], Some e)
                | Inr hc \<Rightarrow>
                    let outcome = body (Dataclass \<lparr>supabase = sb, http_client = hc\<rparr>);
                        closed = aclose rt hc
                    in ([CreateClient supabase_url supabase_key, NewAsyncClient 30, Yield, Aclose],
                        case closed of Some e \<Rightarrow> Some e | None \<Rightarrow> outcome)))"

section \<open>The start-up check of the \<^verbatim>\<open>__main__\<close> block\<close>

datatype startup = Exit int | RunServer

definition required_env_vars :: "string list" where
  "required_env_vars =
     [''SUPABASE_URL'', ''SUPABASE_ANON_KEY'', ''DOCTOR_API_KEY'', ''SKIN_ANALYSIS_API_KEY'']"

text \<open>The printed lines and what follows: \<^verbatim>\<open>exit(1)\<close> or \<^verbatim>\<open>mcp.run()\<close>.\<close>

definition main :: "environ \<Rightarrow> string list \<times> startup" where
  "main env =
     (let missing_vars = filter (\<lambda>var. \<not> getenv_truthy env var) required_env_vars
      in if missing_vars \<noteq> []
         then ([''Missing required environment variables: '' @ join '', '' missing_vars,
                ''Please set these variables before running the server.''], Exit 1)
         else ([], RunServer))"

section \<open>Python operations on values\<close>

text \<open>
  What the interpreter does where this model does not compute it is a parameter: the
  text of a float and of a list or dict under \<^verbatim>\<open>str()\<close>, the conversions \<^verbatim>\<open>float(..)\<close> of a
  string or an integer and \<^verbatim>\<open>int(..)\<close> of a float (each may raise), and the exception
  raised when an operation is applied to a value of a type that does not support it (the
  operation and the type name are given).
\<close>

record builtins =
  str_float :: "pyfloat \<Rightarrow> string"
  str_container :: "json \<Rightarrow> string"
  float_of_str :: "string \<Rightarrow> pyexc + pyfloat"
  float_of_int :: "int \<Rightarrow> pyexc + pyfloat"
  int_of_float :: "pyfloat \<Rightarrow> pyexc + int"
  fault :: "string \<Rightarrow> string \<Rightarrow> pyexc"

definition and_then :: "pyexc + 'a \<Rightarrow> ('a \<Rightarrow> pyexc + 'b) \<Rightarrow> pyexc + 'b" where
  "and_then m f = (case m of Inl e \<Rightarrow> Inl e | Inr x \<Rightarrow> f x)"

text \<open>A comprehension or loop whose body may raise: it stops at the first exception.\<close>

fun map_exc :: "('a \<Rightarrow> pyexc + 'b) \<Rightarrow> 'a list \<Rightarrow> pyexc + 'b list" where
  "map_exc f [] = Inr []"
| "map_exc f (x # xs) = and_then (f x) (\<lambda>y. and_then (map_exc f xs) (\<lambda>ys. Inr (y # ys)))"

text \<open>\<^verbatim>\<open>str(n)\<close> for an integer: its decimal digits, after a minus sign when negative.\<close>

definition digit_char :: "nat \<Rightarrow> char" where
  "digit_char d = (''0123456789'' ! d)"

function str_nat :: "nat \<Rightarrow> string" where
  "str_nat n =
     (case n div 10 of
        0 \<Rightarrow> [digit_char n]
      | Suc q \<Rightarrow> str_nat (Suc q) @ [digit_char (n mod 10)])"
  by pat_completeness auto
termination
  by (relation "measure id") auto

definition str_int :: "int \<Rightarrow> string" where
  "str_int i = (if 0 \<le> i then str_nat (nat i) else CHR ''-'' # str_nat (nat (- i)))"

text \<open>
  The code points of a string: a byte of the form \<open>10xxxxxx\<close> continues the code point
  begun before it. Indexing and iterating a Python string go by code point.
\<close>

definition continuation :: "char \<Rightarrow> bool" where
  "continuation c = (128 \<le> (of_char c :: nat) \<and> (of_char c :: nat) < 192)"

function codepoints :: "string \<Rightarrow> string list" where
  "codepoints [] = []"
| "codepoints (c # cs) = (c # takeWhile continuation cs) # codepoints (dropWhile continuation cs)"
  by pat_completeness auto
termination
  by (relation "measure length") (auto simp: length_dropWhile_le less_Suc_eq_le)

fun py_type :: "json \<Rightarrow> string" where
  "py_type JNull = ''NoneType''"
| "py_type (JBool b) = ''bool''"
| "py_type (JInt i) = ''int''"
| "py_type (JFloat f) = ''float''"
| "py_type (JStr s) = ''str''"
| "py_type (JArr xs) = ''list''"
| "py_type (JObj kvs) = ''dict''"

text \<open>Truth value of a value; both zeros of a float are falsy.\<close>

fun py_truthy :: "json \<Rightarrow> bool" where
  "py_truthy JNull = False"
| "py_truthy (JBool b) = b"
| "py_truthy (JInt i) = (i \<noteq> 0)"
| "py_truthy (JFloat f) = (f \<noteq> 0 \<and> f \<noteq> 0x8000000000000000)"
| "py_truthy (JStr s) = (s \<noteq> [])"
| "py_truthy (JArr xs) = (xs \<noteq> [])"
| "py_truthy (JObj kvs) = (kvs \<noteq> [])"

text \<open>\<^verbatim>\<open>str(v)\<close>, which is also what an f-string puts for \<^verbatim>\<open>{v}\<close>.\<close>

fun py_str :: "builtins \<Rightarrow> json \<Rightarrow> string" where
  "py_str B JNull = ''None''"
| "py_str B (JBool b) = (if b then ''True'' else ''False'')"
| "py_str B (JInt i) = str_int i"
| "py_str B (JFloat f) = str_float B f"
| "py_str B (JStr s) = s"
| "py_str B (JArr xs) = str_container B (JArr xs)"
| "py_str B (JObj kvs) = str_container B (JObj kvs)"

text \<open>\<^verbatim>\<open>d.get(k, default)\<close> on a row, which is a dict.\<close>

definition row_get :: "row \<Rightarrow> string \<Rightarrow> json \<Rightarrow> json" where
  "row_get r k d = (case map_of r k of None \<Rightarrow> d | Some v \<Rightarrow> v)"

text \<open>\<^verbatim>\<open>v.get(k, default)\<close> on any value: only a dict has the method.\<close>

fun py_get :: "builtins \<Rightarrow> json \<Rightarrow> string \<Rightarrow> json \<Rightarrow> pyexc + json" where
  "py_get B (JObj kvs) k d = Inr (row_get kvs k d)"
| "py_get B v k d = Inl (fault B ''get'' (py_type v))"

text \<open>\<^verbatim>\<open>v[0]\<close>.\<close>

fun py_index0 :: "builtins \<Rightarrow> json \<Rightarrow> pyexc + json" where
  "py_index0 B (JArr []) = Inl (PyExc ''IndexError'' ''list index out of range'')"
| "py_index0 B (JArr (x # xs)) = Inr x"
| "py_index0 B (JStr s) =
     (case codepoints s of
        [] \<Rightarrow> Inl (PyExc ''IndexError'' ''string index out of range'')
      | c # cs \<Rightarrow> Inr (JStr c))"
| "py_index0 B (JObj kvs) = Inl (PyExc ''KeyError'' ''0'')"
| "py_index0 B v = Inl (fault B ''subscript'' (py_type v))"

text \<open>\<^verbatim>\<open>v[:5]\<close>.\<close>

fun py_slice5 :: "builtins \<Rightarrow> json \<Rightarrow> pyexc + json" where
  "py_slice5 B (JArr xs) = Inr (JArr (take 5 xs))"
| "py_slice5 B (JStr s) = Inr (JStr (concat (take 5 (codepoints s))))"
| "py_slice5 B v = Inl (fault B ''slice'' (py_type v))"

text \<open>The items a \<^verbatim>\<open>for\<close> loop sees: the elements of a list, the code points of a string,
  the keys of a dict.\<close>

fun py_iter :: "builtins \<Rightarrow> json \<Rightarrow> pyexc + json list" where
  "py_iter B (JArr xs) = Inr xs"
| "py_iter B (JStr s) = Inr (map JStr (codepoints s))"
| "py_iter B (JObj kvs) = Inr (map (\<lambda>kv. JStr (fst kv)) kvs)"
| "py_iter B v = Inl (fault B ''iter'' (py_type v))"

text \<open>The items of \<^verbatim>\<open>sep.join(..)\<close> must all be strings.\<close>

fun strs_of :: "builtins \<Rightarrow> json list \<Rightarrow> pyexc + string list" where
  "strs_of B [] = Inr []"
| "strs_of B (JStr s # vs) = and_then (strs_of B vs) (\<lambda>ss. Inr (s # ss))"
| "strs_of B (v # vs) = Inl (fault B ''join'' (py_type v))"

definition join_values :: "builtins \<Rightarrow> string \<Rightarrow> json list \<Rightarrow> pyexc + string" where
  "join_values B sep vs = and_then (strs_of B vs) (\<lambda>ss. Inr (join sep ss))"

text \<open>\<^verbatim>\<open>float(v)\<close>.\<close>

fun py_float :: "builtins \<Rightarrow> json \<Rightarrow> pyexc + pyfloat" where
  "py_float B (JFloat f) = Inr f"
| "py_float B (JInt i) = float_of_int B i"
| "py_float B (JBool b) = float_of_int B (if b then 1 else 0)"
| "py_float B (JStr s) = float_of_str B s"
| "py_float B v = Inl (fault B ''float'' (py_type v))"

text \<open>\<^verbatim>\<open>s * n\<close> for a string and an integer: empty when \<open>n\<close> is not positive.\<close>

definition str_times :: "string \<Rightarrow> int \<Rightarrow> string" where
  "str_times s n = concat (replicate (nat n) s)"

section \<open>Characters outside ASCII used in the texts\<close>

definition u_alarm_clock :: string where
  "u_alarm_clock = [CHR 0xE2, CHR 0x8F, CHR 0xB0]"

definition u_bar_chart :: string where
  "u_bar_chart = [CHR 0xF0, CHR 0x9F, CHR 0x93, CHR 0x8A]"

definition u_black_star :: string where
  "u_black_star = [CHR 0xE2, CHR 0x98, CHR 0x85]"

definition u_black_telephone :: string where
  "u_black_telephone = [CHR 0xE2, CHR 0x98, CHR 0x8E]"

definition u_box_drawings_light_down_and_left :: string where
  "u_box_drawings_light_down_and_left = [CHR 0xE2, CHR 0x94, CHR 0x90]"

definition u_box_drawings_light_down_and_right :: string where
  "u_box_drawings_light_down_and_right = [CHR 0xE2, CHR 0x94, CHR 0x8C]"

definition u_box_drawings_light_horizontal :: string where
  "u_box_drawings_light_horizontal = [CHR 0xE2, CHR 0x94, CHR 0x80]"

definition u_box_drawings_light_up_and_left :: string where
  "u_box_drawings_light_up_and_left = [CHR 0xE2, CHR 0x94, CHR 0x98]"

definition u_box_drawings_light_up_and_right :: string where
  "u_box_drawings_light_up_and_right = [CHR 0xE2, CHR 0x94, CHR 0x94]"

definition u_box_drawings_light_vertical :: string where
  "u_box_drawings_light_vertical = [CHR 0xE2, CHR 0x94, CHR 0x82]"

definition u_bullet :: string where
  "u_bullet = [CHR 0xE2, CHR 0x80, CHR 0xA2]"

definition u_calendar :: string where
  "u_calendar = [CHR 0xF0, CHR 0x9F, CHR 0x93, CHR 0x85]"

definition u_clipboard :: string where
  "u_clipboard = [CHR 0xF0, CHR 0x9F, CHR 0x93, CHR 0x8B]"

definition u_clock_face_three_oclock :: string where
  "u_clock_face_three_oclock = [CHR 0xF0, CHR 0x9F, CHR 0x95, CHR 0x92]"

definition u_cross_mark :: string where
  "u_cross_mark = [CHR 0xE2, CHR 0x9D, CHR 0x8C]"

definition u_delivery_truck :: string where
  "u_delivery_truck = [CHR 0xF0, CHR 0x9F, CHR 0x9A, CHR 0x9A]"

definition u_e_mail_symbol :: string where
  "u_e_mail_symbol = [CHR 0xF0, CHR 0x9F, CHR 0x93, CHR 0xA7]"

definition u_electric_light_bulb :: string where
  "u_electric_light_bulb = [CHR 0xF0, CHR 0x9F, CHR 0x92, CHR 0xA1]"

definition u_gem_stone :: string where
  "u_gem_stone = [CHR 0xF0, CHR 0x9F, CHR 0x92, CHR 0x8E]"

definition u_globe_with_meridians :: string where
  "u_globe_with_meridians = [CHR 0xF0, CHR 0x9F, CHR 0x8C, CHR 0x90]"

definition u_glowing_star :: string where
  "u_glowing_star = [CHR 0xF0, CHR 0x9F, CHR 0x8C, CHR 0x9F]"

definition u_hospital :: string where
  "u_hospital = [CHR 0xF0, CHR 0x9F, CHR 0x8F, CHR 0xA5]"

definition u_label :: string where
  "u_label = [CHR 0xF0, CHR 0x9F, CHR 0x8F, CHR 0xB7]"

definition u_left_pointing_magnifying_glass :: string where
  "u_left_pointing_magnifying_glass = [CHR 0xF0, CHR 0x9F, CHR 0x94, CHR 0x8D]"

definition u_link_symbol :: string where
  "u_link_symbol = [CHR 0xF0, CHR 0x9F, CHR 0x94, CHR 0x97]"

definition u_lotion_bottle :: string where
  "u_lotion_bottle = [CHR 0xF0, CHR 0x9F, CHR 0xA7, CHR 0xB4]"

definition u_microscope :: string where
  "u_microscope = [CHR 0xF0, CHR 0x9F, CHR 0x94, CHR 0xAC]"

definition u_mobile_phone :: string where
  "u_mobile_phone = [CHR 0xF0, CHR 0x9F, CHR 0x93, CHR 0xB1]"

definition u_mobile_phone_with_rightwards_arrow_at_left :: string where
  "u_mobile_phone_with_rightwards_arrow_at_left = [CHR 0xF0, CHR 0x9F, CHR 0x93, CHR 0xB2]"

definition u_open_mailbox_with_raised_flag :: string where
  "u_open_mailbox_with_raised_flag = [CHR 0xF0, CHR 0x9F, CHR 0x93, CHR 0xAC]"

definition u_shopping_bags :: string where
  "u_shopping_bags = [CHR 0xF0, CHR 0x9F, CHR 0x9B, CHR 0x8D]"

definition u_shopping_trolley :: string where
  "u_shopping_trolley = [CHR 0xF0, CHR 0x9F, CHR 0x9B, CHR 0x92]"

definition u_sparkles :: string where
  "u_sparkles = [CHR 0xE2, CHR 0x9C, CHR 0xA8]"

definition u_speech_balloon :: string where
  "u_speech_balloon = [CHR 0xF0, CHR 0x9F, CHR 0x92, CHR 0xAC]"

definition u_telephone_receiver :: string where
  "u_telephone_receiver = [CHR 0xF0, CHR 0x9F, CHR 0x93, CHR 0x9E]"

definition u_variation_selector_16 :: string where
  "u_variation_selector_16 = [CHR 0xEF, CHR 0xB8, CHR 0x8F]"

definition u_warning_sign :: string where
  "u_warning_sign = [CHR 0xE2, CHR 0x9A, CHR 0xA0]"

definition u_white_heavy_check_mark :: string where
  "u_white_heavy_check_mark = [CHR 0xE2, CHR 0x9C, CHR 0x85]"

definition u_white_medium_star :: string where
  "u_white_medium_star = [CHR 0xE2, CHR 0xAD, CHR 0x90]"

definition u_white_up_pointing_backhand_index :: string where
  "u_white_up_pointing_backhand_index = [CHR 0xF0, CHR 0x9F, CHR 0x91, CHR 0x86]"

section \<open>Handlers\<close>

text \<open>
  A handler returns a string or raises, and calls the external clients on the way. Its
  model returns both: the result and the requests sent, in order. A handler runs inside a
  request, so \<^verbatim>\<open>mcp.get_context()\<close> and \<^verbatim>\<open>ctx.request_context\<close> succeed; the lifespan
  context found there is an argument.

  \<open>caught before after\<close> is the clause
  \<^verbatim>\<open>except Exception as e: return f"{before}{str(e)}{after}"\<close> around a \<^verbatim>\<open>try\<close> body.
\<close>

datatype call = Db db_request | Http http_request

type_synonym outcome = "(pyexc + string) \<times> call list"

definition caught :: "string \<Rightarrow> string \<Rightarrow> pyexc + string \<Rightarrow> pyexc + string" where
  "caught before after r = (case r of Inl e \<Rightarrow> Inr (before @ exc_str e @ after) | Inr s \<Rightarrow> Inr s)"

subsection \<open>Resources\<close>

definition user_profile_text :: "builtins \<Rightarrow> row \<Rightarrow> string" where
  "user_profile_text B user_data =
     nl @
     ''User Profile:'' @ nl @
     ''- Name: '' @ py_str B (row_get user_data ''full_name'' (JStr ''N/A'')) @ nl @
     ''- Email: '' @ py_str B (row_get user_data ''email'' (JStr ''N/A'')) @ nl @
     ''- Age: '' @ py_str B (row_get user_data ''age'' (JStr ''N/A'')) @ nl @
     ''- Medical History: '' @
     py_str B (row_get user_data ''medical_history'' (JStr ''No history recorded'')) @ nl @
     ''- Allergies: '' @ py_str B (row_get user_data ''allergies'' (JStr ''None reported'')) @ nl @
     ''- Current Medications: '' @
     py_str B (row_get user_data ''current_medications'' (JStr ''None reported'')) @ nl"

definition user_profile_query :: "string \<Rightarrow> db_request" where
  "user_profile_query user_id = Select ''users'' ''*'' [(''id'', user_id)] None"

definition get_user_profile :: "builtins \<Rightarrow> lifespan_context \<Rightarrow> string \<Rightarrow> outcome" where
  "get_user_profile B lc user_id =
     (case subscript_supabase lc of
        Inl e \<Rightarrow> (Inl e, [])
      | Inr db \<Rightarrow>
          (caught ''Error retrieving user profile: '' ''''
             (case db (user_profile_query user_id) of
                Inl e \<Rightarrow> Inl e
              | Inr [] \<Rightarrow> Inr (''No user found with ID: '' @ user_id)
              | Inr (user_data # others) \<Rightarrow> Inr (user_profile_text B user_data)),
           [Db (user_profile_query user_id)]))"

definition medical_record_text :: "builtins \<Rightarrow> row \<Rightarrow> string" where
  "medical_record_text B record =
     nl @
     ''Date: '' @ py_str B (row_get record ''created_at'' (JStr ''Unknown'')) @ nl @
     ''Condition: '' @ py_str B (row_get record ''condition'' (JStr ''N/A'')) @ nl @
     ''Treatment: '' @ py_str B (row_get record ''treatment'' (JStr ''N/A'')) @ nl @
     ''Doctor: '' @ py_str B (row_get record ''doctor_name'' (JStr ''N/A'')) @ nl @
     ''Notes: '' @ py_str B (row_get record ''notes'' (JStr ''No notes'')) @ nl @
     ''---''"

definition medical_history_query :: "string \<Rightarrow> db_request" where
  "medical_history_query user_id =
     Select ''medical_records'' ''*'' [(''user_id'', user_id)] (Some (''created_at'', True))"

definition get_user_medical_history :: "builtins \<Rightarrow> lifespan_context \<Rightarrow> string \<Rightarrow> outcome" where
  "get_user_medical_history B lc user_id =
     (case subscript_supabase lc of
        Inl e \<Rightarrow> (Inl e, [])
      | Inr db \<Rightarrow>
          (caught ''Error retrieving medical history: '' ''''
             (case db (medical_history_query user_id) of
                Inl e \<Rightarrow> Inl e
              | Inr [] \<Rightarrow> Inr (''No medical history found for user: '' @ user_id)
              | Inr (r # rs) \<Rightarrow>
                  Inr (''Medical History for User '' @ user_id @ '':'' @ nl @
                       join nl (map (medical_record_text B) (r # rs)))),
           [Db (medical_history_query user_id)]))"

subsection \<open>Tools\<close>

definition doctor_info :: "builtins \<Rightarrow> nat \<Rightarrow> json \<Rightarrow> pyexc + string" where
  "doctor_info B i doctor =
     and_then (py_get B doctor ''profile'' (JObj [])) (\<lambda>profile.
     and_then (py_get B doctor ''practices'' (JArr [JObj []])) (\<lambda>practices.
     and_then (if py_truthy practices then py_index0 B practices else Inr (JObj [])) (\<lambda>practice.
     and_then (py_get B profile ''first_name'' (JStr '''')) (\<lambda>first_name.
     and_then (py_get B profile ''last_name'' (JStr '''')) (\<lambda>last_name.
     and_then (py_get B doctor ''specialties'' (JArr [])) (\<lambda>specialties.
     and_then (py_iter B specialties) (\<lambda>ss.
     and_then (map_exc (\<lambda>s. py_get B s ''name'' (JStr '''')) ss) (\<lambda>names.
     and_then (join_values B '', '' names) (\<lambda>specialty.
     and_then (py_get B practice ''name'' (JStr ''N/A'')) (\<lambda>practice_name.
     and_then (py_get B practice ''visit_address'' (JObj [])) (\<lambda>visit_address.
     and_then (py_get B visit_address ''street'' (JStr ''N/A'')) (\<lambda>street.
     and_then (py_get B practice ''phones'' (JArr [JObj []])) (\<lambda>phones.
     and_then (py_index0 B phones) (\<lambda>phone.
     and_then (py_get B phone ''number'' (JStr ''N/A'')) (\<lambda>number.
     and_then (py_get B practice ''distance'' (JStr ''N/A'')) (\<lambda>distance.
     and_then (py_get B practice ''rating'' (JObj [])) (\<lambda>rating.
     and_then (py_get B rating ''average'' (JInt 0)) (\<lambda>average.
     and_then (py_float B average) (\<lambda>average_float.
     and_then (int_of_float B average_float) (\<lambda>stars.
     and_then (py_get B practice ''website'' (JStr ''No website available'')) (\<lambda>website.
     and_then (py_get B practice ''accepts_new_patients'' JNull) (\<lambda>accepts.
     Inr (nl @
          str_nat i @ ''. Dr. '' @ py_str B first_name @ '' '' @ py_str B last_name @ nl @
          ''   Specialty: '' @ specialty @ nl @
          ''   Practice: '' @ py_str B practice_name @ nl @
          ''   Address: '' @ py_str B street @ nl @
          ''   Phone: '' @ py_str B number @ nl @
          ''   Distance: '' @ py_str B distance @ '' miles'' @ nl @
          ''   Rating: '' @ str_times u_black_star stars @ nl @
          ''   '' @ nl @
          ''   Website: '' @ py_str B website @ nl @
          ''   Accepts New Patients: '' @ (if py_truthy accepts then ''Yes'' else ''No'') @ nl)
     ))))))))))))))))))))))"

definition doctors_found_text :: "string list \<Rightarrow> string" where
  "doctors_found_text doctors =
     u_hospital @ '' Nearby Doctors Found:'' @ nl @ join nl doctors @
     nl @
     nl @
     u_calendar @
     '' Would you like to book an appointment with any of these doctors? I can help you with the appointment workflow!''"

text \<open>The part of the \<^verbatim>\<open>try\<close> body after \<^verbatim>\<open>data = response.json()\<close>.\<close>

definition render_doctors :: "builtins \<Rightarrow> json \<Rightarrow> pyexc + string" where
  "render_doctors B data =
     and_then (py_get B data ''data'' JNull) (\<lambda>found.
       if \<not> py_truthy found
       then Inr (''No doctors found in your area. Please try expanding your search radius.'')
       else
         and_then (py_slice5 B found) (\<lambda>first5.
         and_then (py_iter B first5) (\<lambda>items.
         and_then (map_exc (\<lambda>(i, doctor). doctor_info B i doctor) (enumerate 1 items)) (\<lambda>doctors.
         Inr (doctors_found_text doctors)))))"

definition doctor_search_request ::
  "builtins \<Rightarrow> string \<Rightarrow> pyfloat \<Rightarrow> pyfloat \<Rightarrow> string \<Rightarrow> int \<Rightarrow> http_request" where
  "doctor_search_request B api_key latitude longitude specialty radius_miles =
     Get ''https://api.betterdoctor.com/2016-05-02/doctors''
       [(''location'', JStr (str_float B latitude @ '','' @ str_float B longitude @ '','' @ str_int radius_miles)),
        (''specialty_uid'', JStr specialty),
        (''limit'', JInt 10),
        (''user_key'', JStr api_key)]
       []"

definition search_nearby_doctors ::
  "builtins \<Rightarrow> environ \<Rightarrow> lifespan_context \<Rightarrow> pyfloat \<Rightarrow> pyfloat \<Rightarrow> string \<Rightarrow> int \<Rightarrow> outcome" where
  "search_nearby_doctors B env lc latitude longitude specialty radius_miles =
     (case subscript_http_client lc of
        Inl e \<Rightarrow> (Inl e, [])
      | Inr http \<Rightarrow>
          if \<not> getenv_truthy env ''DOCTOR_API_KEY''
          then (Inr (''Doctor API key not configured. Please contact administrator.''), [])
          else
            let request = doctor_search_request B (the (env ''DOCTOR_API_KEY''))
                            latitude longitude specialty radius_miles
            in (caught ''Error searching for doctors: '' ''''
                  (and_then (http request) (\<lambda>response.
                   and_then (case raise_for_status response of Some e \<Rightarrow> Inl e | None \<Rightarrow> Inr ()) (\<lambda>ok.
                   and_then (json_of response) (\<lambda>data.
                   render_doctors B data)))),
                [Http request]))"

definition availability_text :: "string \<Rightarrow> string" where
  "availability_text doctor_id =
     nl @
     u_calendar @ '' Available Appointment Slots for Dr. '' @ doctor_id @ '':'' @ nl @
     nl @
     ''This Week:'' @ nl @
     ''- Tomorrow 2:00 PM - 15 min consultation'' @ nl @
     ''- Thursday 10:30 AM - 30 min consultation  '' @ nl @
     ''- Friday 3:45 PM - 15 min consultation'' @ nl @
     nl @
     ''Next Week:'' @ nl @
     ''- Monday 9:00 AM - 30 min consultation'' @ nl @
     ''- Tuesday 1:15 PM - 15 min consultation'' @ nl @
     ''- Wednesday 4:30 PM - 30 min consultation'' @ nl @
     nl @
     u_link_symbol @
     '' Book Online: [Click here to book directly](https://doctorbooking.example.com/book/'' @
     doctor_id @ '')'' @ nl @
     u_telephone_receiver @ '' Call to Book: (555) 123-4567'' @ nl @
     nl @
     ''Would you like me to help you book one of these appointments?'' @ nl"

text \<open>\<^verbatim>\<open>f"Bearer {api_key}"\<close> where \<^verbatim>\<open>api_key\<close> is what \<^verbatim>\<open>os.getenv\<close> returned, possibly
  \<^verbatim>\<open>None\<close>.\<close>

definition bearer :: "string option \<Rightarrow> string" where
  "bearer api_key = ''Bearer '' @ (case api_key of None \<Rightarrow> ''None'' | Some k \<Rightarrow> k)"

definition availability_request :: "environ \<Rightarrow> string \<Rightarrow> http_request" where
  "availability_request env doctor_id =
     Get (''https://api.betterdoctor.com/2016-05-02/doctors/'' @ doctor_id @ ''/appointments'') []
       [(''Authorization'', bearer (env ''DOCTOR_API_KEY''))]"

definition get_doctor_availability :: "environ \<Rightarrow> lifespan_context \<Rightarrow> string \<Rightarrow> outcome" where
  "get_doctor_availability env lc doctor_id =
     (case subscript_http_client lc of
        Inl e \<Rightarrow> (Inl e, [])
      | Inr http \<Rightarrow>
          (caught ''Error retrieving doctor availability: '' ''''
             (and_then (http (availability_request env doctor_id)) (\<lambda>response.
              Inr (availability_text doctor_id))),
           [Http (availability_request env doctor_id)]))"

definition analysis_head :: "builtins \<Rightarrow> json \<Rightarrow> json \<Rightarrow> json \<Rightarrow> string" where
  "analysis_head B confidence condition risk_level =
     nl @
     u_microscope @ '' Skin Condition Analysis Results:'' @ nl @
     nl @
     u_bar_chart @ '' Analysis Confidence: '' @ py_str B confidence @ ''%'' @ nl @
     u_label @ u_variation_selector_16 @ '' Potential Condition: '' @ py_str B condition @ nl @
     u_warning_sign @ u_variation_selector_16 @ '' Risk Level: '' @ py_str B risk_level @ nl @
     nl @
     u_clipboard @ '' Recommendations:'' @ nl"

definition recommendation_line :: "builtins \<Rightarrow> json \<Rightarrow> string" where
  "recommendation_line B rec = u_bullet @ '' '' @ py_str B rec @ nl"

definition analysis_disclaimer :: string where
  "analysis_disclaimer =
     nl @
     nl @
     u_warning_sign @ u_variation_selector_16 @
     '' IMPORTANT DISCLAIMER: This analysis is for informational purposes only and should not replace professional medical advice. Please consult with a dermatologist for proper diagnosis and treatment.'' @
     nl @
     nl @
     u_hospital @
     '' Would you like me to help you find nearby dermatologists for a professional consultation?'' @
     nl"

text \<open>The part of the \<^verbatim>\<open>try\<close> body after \<^verbatim>\<open>result = response.json()\<close>.\<close>

definition render_analysis :: "builtins \<Rightarrow> json \<Rightarrow> pyexc + string" where
  "render_analysis B result =
     and_then (py_get B result ''confidence'' (JInt 0)) (\<lambda>confidence.
     and_then (py_get B result ''predicted_condition'' (JStr ''Unknown'')) (\<lambda>condition.
     and_then (py_get B result ''risk_level'' (JStr ''Unknown'')) (\<lambda>risk_level.
     and_then (py_get B result ''recommendations'' (JArr [])) (\<lambda>recommendations.
     and_then (py_iter B recommendations) (\<lambda>recs.
     Inr (analysis_head B confidence condition risk_level @
          concat (map (recommendation_line B) recs) @
          analysis_disclaimer))))))"

definition skin_analysis_request :: "string \<Rightarrow> string \<Rightarrow> http_request" where
  "skin_analysis_request api_key image_data =
     Post ''https://api.skinvision.com/v1/analyze''
       (JObj [(''image'', JStr image_data),
              (''metadata'', JObj [(''body_part'', JStr ''unknown''),
                                   (''image_quality'', JStr ''auto_detect'')])])
       [(''Authorization'', bearer (Some api_key)),
        (''Content-Type'', ''application/json'')]"

definition analyze_skin_condition_image ::
  "builtins \<Rightarrow> environ \<Rightarrow> lifespan_context \<Rightarrow> string \<Rightarrow> outcome" where
  "analyze_skin_condition_image B env lc image_data =
     (case subscript_http_client lc of
        Inl e \<Rightarrow> (Inl e, [])
      | Inr http \<Rightarrow>
          if \<not> getenv_truthy env ''SKIN_ANALYSIS_API_KEY''
          then (Inr (''Skin analysis API not configured. Please contact administrator.''), [])
          else
            let request = skin_analysis_request (the (env ''SKIN_ANALYSIS_API_KEY'')) image_data
            in (caught ''Error analyzing skin condition: ''
                       ''. Please ensure the image is clear and try again.''
                  (and_then (http request) (\<lambda>response.
                   and_then (case raise_for_status response of Some e \<Rightarrow> Inl e | None \<Rightarrow> Inr ()) (\<lambda>ok.
                   and_then (json_of response) (\<lambda>result.
                   render_analysis B result)))),
                [Http request]))"

definition create_appointment_booking_resource :: "string \<Rightarrow> string \<Rightarrow> string" where
  "create_appointment_booking_resource doctor_name practice_website =
     nl @
     u_clipboard @ '' Appointment Booking Options for '' @ doctor_name @ '':'' @ nl @
     nl @
     u_globe_with_meridians @ '' Online Booking:'' @ nl @
     u_box_drawings_light_down_and_right @ concat (replicate 37 u_box_drawings_light_horizontal) @
     u_box_drawings_light_down_and_left @ nl @
     u_box_drawings_light_vertical @ ''  '' @ u_calendar @ '' Book Online                     '' @
     u_box_drawings_light_vertical @ nl @
     u_box_drawings_light_vertical @ ''  '' @ practice_website @ ''                 '' @
     u_box_drawings_light_vertical @ nl @
     u_box_drawings_light_vertical @ ''  '' @ u_white_heavy_check_mark @
     '' Instant confirmation            '' @ u_box_drawings_light_vertical @ nl @
     u_box_drawings_light_vertical @ ''  '' @ u_alarm_clock @
     '' 24/7 availability               '' @ u_box_drawings_light_vertical @ nl @
     u_box_drawings_light_up_and_right @ concat (replicate 37 u_box_drawings_light_horizontal) @
     u_box_drawings_light_up_and_left @ nl @
     nl @
     u_telephone_receiver @ '' Phone Booking:'' @ nl @
     u_box_drawings_light_down_and_right @ concat (replicate 37 u_box_drawings_light_horizontal) @
     u_box_drawings_light_down_and_left @ nl @
     u_box_drawings_light_vertical @ ''  '' @ u_black_telephone @ u_variation_selector_16 @
     '' Call Practice Directly          '' @ u_box_drawings_light_vertical @ nl @
     u_box_drawings_light_vertical @ ''  '' @ u_telephone_receiver @
     '' (555) 123-4567                  '' @ u_box_drawings_light_vertical @ nl @
     u_box_drawings_light_vertical @ ''  '' @ u_clock_face_three_oclock @
     '' Mon-Fri 8AM-5PM                 '' @ u_box_drawings_light_vertical @ nl @
     u_box_drawings_light_vertical @ ''  '' @ u_speech_balloon @
     '' Speak with receptionist         '' @ u_box_drawings_light_vertical @ nl @
     u_box_drawings_light_up_and_right @ concat (replicate 37 u_box_drawings_light_horizontal) @
     u_box_drawings_light_up_and_left @ nl @
     nl @
     u_mobile_phone @ '' Mobile App:'' @ nl @
     u_box_drawings_light_down_and_right @ concat (replicate 37 u_box_drawings_light_horizontal) @
     u_box_drawings_light_down_and_left @ nl @
     u_box_drawings_light_vertical @ ''  '' @ u_mobile_phone_with_rightwards_arrow_at_left @
     '' Download Practice App           '' @ u_box_drawings_light_vertical @ nl @
     u_box_drawings_light_vertical @ ''  '' @ u_left_pointing_magnifying_glass @ '' Search '' @
     [CHR 0x22] @ ''[Practice Name] app'' @ [CHR 0x22] @ ''    '' @ u_box_drawings_light_vertical @
     nl @
     u_box_drawings_light_vertical @ ''  '' @ u_calendar @ '' Mobile-friendly booking         '' @
     u_box_drawings_light_vertical @ nl @
     u_box_drawings_light_vertical @ ''  '' @ u_open_mailbox_with_raised_flag @
     '' Appointment reminders           '' @ u_box_drawings_light_vertical @ nl @
     u_box_drawings_light_up_and_right @ concat (replicate 37 u_box_drawings_light_horizontal) @
     u_box_drawings_light_up_and_left @ nl @
     nl @
     u_electric_light_bulb @
     '' Pro Tip: Online booking is usually fastest and gives you real-time availability!'' @ nl"

definition interaction_insert :: "string \<Rightarrow> string \<Rightarrow> string \<Rightarrow> db_request" where
  "interaction_insert user_id interaction_type details =
     Insert ''user_interactions''
       [(''user_id'', JStr user_id),
        (''interaction_type'', JStr interaction_type),
        (''details'', JStr details),
        (''timestamp'', JStr ''now()'')]"

definition interaction_saved :: "string \<Rightarrow> string" where
  "interaction_saved user_id = u_white_heavy_check_mark @ '' Interaction saved successfully for user '' @ user_id"

definition save_user_interaction ::
  "lifespan_context \<Rightarrow> string \<Rightarrow> string \<Rightarrow> string \<Rightarrow> outcome" where
  "save_user_interaction lc user_id interaction_type details =
     (case subscript_supabase lc of
        Inl e \<Rightarrow> (Inl e, [])
      | Inr db \<Rightarrow>
          (caught ''Error saving interaction: '' ''''
             (case db (interaction_insert user_id interaction_type details) of
                Inl e \<Rightarrow> Inl e
              | Inr [] \<Rightarrow> Inr (u_cross_mark @ '' Failed to save interaction'')
              | Inr (r # rs) \<Rightarrow> Inr (interaction_saved user_id)),
           [Db (interaction_insert user_id interaction_type details)]))"

subsection \<open>Prompts\<close>

datatype message = UserMessage string | AssistantMessage string

definition skincare_product_consultation :: "string \<Rightarrow> string \<Rightarrow> string \<Rightarrow> message list" where
  "skincare_product_consultation skin_type concerns budget =
     [UserMessage
        (nl @
         ''I'' @ [CHR 0x27] @ ''m looking for skincare product recommendations. Here are my details:'' @
         nl @
         ''- Skin Type: '' @ (if skin_type \<noteq> [] then skin_type else ''Not specified'') @ nl @
         ''- Main Concerns: '' @ (if concerns \<noteq> [] then concerns else ''General skincare'') @
         nl @
         ''- Budget Range: '' @ (if budget \<noteq> [] then budget else ''Not specified'') @ nl @
         nl @
         ''Please provide personalized recommendations and let me know about purchasing options.'' @ nl),
      AssistantMessage
        (nl @
         ''I'' @ [CHR 0x27] @
         ''d be happy to help you with personalized skincare recommendations! Based on your skin type and concerns, I can suggest products that would work well for you.'' @
         nl @
         nl @
         ''Here are my recommendations:'' @ nl @
         nl @
         u_lotion_bottle @ '' **Recommended Products:**'' @ nl @
         nl @
         ''For your skin type and concerns, I suggest:'' @ nl @
         ''1. **Gentle Cleanser** - Daily use, morning and evening'' @ nl @
         ''2. **Hydrating Serum** - With hyaluronic acid for moisture retention  '' @ nl @
         ''3. **Targeted Treatment** - For your specific concerns'' @ nl @
         ''4. **Moisturizer** - Suitable for your skin type'' @ nl @
         ''5. **SPF Protection** - Daily sun protection (essential!)'' @ nl @
         nl @
         u_electric_light_bulb @ '' **Usage Tips:**'' @ nl @
         ''- Start with one new product at a time'' @ nl @
         ''- Patch test before full application'' @ nl @
         ''- Consistency is key for best results'' @ nl @
         nl @
         u_shopping_trolley @ '' **Ready to Purchase?**'' @ nl @
         ''Would you like to browse and purchase these recommended products from our curated skincare collection? '' @
         nl @
         nl @
         ''Our website offers:'' @ nl @
         u_white_heavy_check_mark @ '' Dermatologist-approved products'' @ nl @
         u_white_heavy_check_mark @ '' Customer reviews and ratings  '' @ nl @
         u_white_heavy_check_mark @ '' Detailed ingredient lists'' @ nl @
         u_white_heavy_check_mark @ '' Fast shipping and easy returns'' @ nl @
         nl @
         ''**Would you like me to direct you to our products page to explore these recommendations?**'' @
         nl),
      UserMessage
        (''That sounds great! Yes, I'' @ [CHR 0x27] @ ''d like to see the products page.''),
      AssistantMessage
        (nl @
         ''Perfect! I'' @ [CHR 0x27] @
         ''m redirecting you to our skincare products page where you can explore all the recommended products.'' @
         nl @
         nl @
         u_link_symbol @ '' **Redirecting to Products Page...**'' @ nl @
         nl @
         u_box_drawings_light_down_and_right @ concat (replicate 45 u_box_drawings_light_horizontal) @
         u_box_drawings_light_down_and_left @ nl @
         u_box_drawings_light_vertical @ ''  '' @ u_shopping_trolley @
         '' SKINCARE PRODUCTS PAGE                  '' @ u_box_drawings_light_vertical @ nl @
         u_box_drawings_light_vertical @ ''                                             '' @
         u_box_drawings_light_vertical @ nl @
         u_box_drawings_light_vertical @ ''  '' @ u_glowing_star @
         '' Personalized Recommendations           '' @ u_box_drawings_light_vertical @ nl @
         u_box_drawings_light_vertical @ ''  '' @ u_gem_stone @
         '' Premium & Drugstore Options            '' @ u_box_drawings_light_vertical @ nl @
         u_box_drawings_light_vertical @ ''  '' @ u_clipboard @
         '' Detailed Product Information            '' @ u_box_drawings_light_vertical @ nl @
         u_box_drawings_light_vertical @ ''  '' @ u_white_medium_star @
         '' Customer Reviews & Ratings              '' @ u_box_drawings_light_vertical @ nl @
         u_box_drawings_light_vertical @ ''  '' @ u_delivery_truck @
         '' Free Shipping on Orders $50+           '' @ u_box_drawings_light_vertical @ nl @
         u_box_drawings_light_vertical @ ''                                             '' @
         u_box_drawings_light_vertical @ nl @
         u_box_drawings_light_vertical @ ''  [Click here to browse products]            '' @
         u_box_drawings_light_vertical @ nl @
         u_box_drawings_light_vertical @ ''  '' @ u_white_up_pointing_backhand_index @
         '' https://yourwebsite.com/skincare       '' @ u_box_drawings_light_vertical @ nl @
         u_box_drawings_light_up_and_right @ concat (replicate 45 u_box_drawings_light_horizontal) @
         u_box_drawings_light_up_and_left @ nl @
         nl @
         ''You'' @ [CHR 0x27] @
         ''ll find your personalized recommendations highlighted on the page. Each product includes detailed descriptions, ingredients, usage instructions, and customer reviews to help you make the best choice for your skin!'' @
         nl @
         nl @
         ''Happy shopping! '' @ u_shopping_bags @ u_variation_selector_16 @ u_sparkles @ nl)]"

definition appointment_workflow_prompt :: "string \<Rightarrow> string \<Rightarrow> message list" where
  "appointment_workflow_prompt doctor_name specialty =
     [UserMessage
        (''I'' @ [CHR 0x27] @ ''d like to book an appointment with '' @ doctor_name @ '' ('' @
         specialty @ ''). Can you help me with the process?''),
      AssistantMessage
        (nl @
         ''Absolutely! I'' @ [CHR 0x27] @ ''ll guide you through booking an appointment with '' @
         doctor_name @ ''. Let me walk you through the available options:'' @ nl @
         nl @
         u_calendar @ '' **Appointment Booking Workflow**'' @ nl @
         nl @
         ''**Step 1: Choose Your Booking Method**'' @ nl @
         ''1. '' @ u_globe_with_meridians @ '' Online Booking (Fastest)'' @ nl @
         ''2. '' @ u_telephone_receiver @ '' Phone Booking (Personal Touch)  '' @ nl @
         ''3. '' @ u_mobile_phone @ '' Mobile App (Convenient)'' @ nl @
         nl @
         ''**Step 2: Information You'' @ [CHR 0x27] @ ''ll Need**'' @ nl @
         u_white_heavy_check_mark @ '' Your insurance information'' @ nl @
         u_white_heavy_check_mark @ '' Reason for visit'' @ nl @
         u_white_heavy_check_mark @ '' Preferred date and time'' @ nl @
         u_white_heavy_check_mark @ '' Contact information'' @ nl @
         u_white_heavy_check_mark @ '' Any current medications'' @ nl @
         nl @
         ''**Step 3: Appointment Confirmation**'' @ nl @
         ''You'' @ [CHR 0x27] @ ''ll receive confirmation via:'' @ nl @
         ''- '' @ u_e_mail_symbol @ '' Email confirmation'' @ nl @
         ''- '' @ u_mobile_phone @ '' Text message reminder'' @ nl @
         ''- '' @ u_telephone_receiver @ '' Phone call (if requested)'' @ nl @
         nl @
         ''**Ready to proceed?** Which booking method would you prefer? I can provide direct links and detailed instructions for your chosen method.'' @
         nl @
         nl @
         ''Additionally, I can help you:'' @ nl @
         ''- Check the doctor'' @ [CHR 0x27] @ ''s availability'' @ nl @
         ''- Understand what to expect during your visit'' @ nl @
         ''- Prepare questions for your appointment'' @ nl @
         ''- Find directions to the practice'' @ nl @
         nl @
         ''How would you like to proceed?'' @ nl)]"

section \<open>The registered operations\<close>

text \<open>
  The decorators \<^verbatim>\<open>@mcp.resource\<close>, \<^verbatim>\<open>@mcp.tool\<close> and \<^verbatim>\<open>@mcp.prompt\<close> register nine operations.
  A request names one of them with its arguments; \<open>invoke\<close> runs the handler the way the
  server does, handing the environment and the lifespan context to the handlers that read
  them.
\<close>

datatype kind = Resource | Tool | Prompt

datatype operation =
    GetUserProfile string
  | GetUserMedicalHistory string
  | SearchNearbyDoctors pyfloat pyfloat string int
  | GetDoctorAvailability string
  | AnalyzeSkinConditionImage string
  | CreateAppointmentBookingResource string string
  | SaveUserInteraction string string string
  | SkincareProductConsultation string string string
  | AppointmentWorkflowPrompt string string

fun kind_of :: "operation \<Rightarrow> kind" where
  "kind_of (GetUserProfile u) = Resource"
| "kind_of (GetUserMedicalHistory u) = Resource"
| "kind_of (SearchNearbyDoctors la lo s r) = Tool"
| "kind_of (GetDoctorAvailability d) = Tool"
| "kind_of (AnalyzeSkinConditionImage i) = Tool"
| "kind_of (CreateAppointmentBookingResource d w) = Tool"
| "kind_of (SaveUserInteraction u t d) = Tool"
| "kind_of (SkincareProductConsultation s c b) = Prompt"
| "kind_of (AppointmentWorkflowPrompt d s) = Prompt"

datatype result = Raised pyexc | Text string | Messages "message list"

definition text_result :: "outcome \<Rightarrow> result \<times> call list" where
  "text_result r = (case fst r of Inl e \<Rightarrow> Raised e | Inr s \<Rightarrow> Text s, snd r)"

fun invoke :: "builtins \<Rightarrow> environ \<Rightarrow> lifespan_context \<Rightarrow> operation \<Rightarrow> result \<times> call list" where
  "invoke B env lc (GetUserProfile u) = text_result (get_user_profile B lc u)"
| "invoke B env lc (GetUserMedicalHistory u) = text_result (get_user_medical_history B lc u)"
| "invoke B env lc (SearchNearbyDoctors la lo s r) = text_result (search_nearby_doctors B env lc la lo s r)"
| "invoke B env lc (GetDoctorAvailability d) = text_result (get_doctor_availability env lc d)"
| "invoke B env lc (AnalyzeSkinConditionImage i) = text_result (analyze_skin_condition_image B env lc i)"
| "invoke B env lc (CreateAppointmentBookingResource d w) = (Text (create_appointment_booking_resource d w), [])"
| "invoke B env lc (SaveUserInteraction u t d) = text_result (save_user_interaction lc u t d)"
| "invoke B env lc (SkincareProductConsultation s c b) = (Messages (skincare_product_consultation s c b), [])"
| "invoke B env lc (AppointmentWorkflowPrompt d s) = (Messages (appointment_workflow_prompt d s), [])"

section \<open>Concrete inputs\<close>

text \<open>Small environments, clients and server bodies on which the theorems below are run.\<close>

definition demo_env :: environ where
  "demo_env = map_of [(''SUPABASE_URL'', ''https://db.example''), (''SUPABASE_ANON_KEY'', ''anon'')]"

definition empty_store :: supabase_client where
  "empty_store = (\<lambda>q. Inr [])"

definition refusing_http :: http_client where
  "refusing_http = (\<lambda>r. Inl (PyExc ''ConnectError'' ''connection refused''))"

definition demo_runtime :: runtime where
  "demo_runtime = \<lparr>create_client = (\<lambda>url key. Inr empty_store),
                    AsyncClient = (\<lambda>timeout. Inr refusing_http),
                    aclose = (\<lambda>h. None)\<rparr>"

definition no_store_runtime :: runtime where
  "no_store_runtime =
     \<lparr>create_client = (\<lambda>url key. Inl (PyExc ''SupabaseException'' ''Invalid URL'')),
      AsyncClient = (\<lambda>timeout. Inr refusing_http),
      aclose = (\<lambda>h. None)\<rparr>"

definition crashing_server :: "lifespan_context \<Rightarrow> pyexc option" where
  "crashing_server c = Some (PyExc ''RuntimeError'' ''server loop failed'')"


text \<open>An interpreter for runs in which the only float is \<open>0.0\<close>, the only integer converted
  to a float is \<open>0\<close>, and \<^verbatim>\<open>str()\<close> is applied to no list or dict but the empty list.\<close>

definition zero_builtins :: builtins where
  "zero_builtins =
     \<lparr>str_float = (\<lambda>f. ''0.0''),
      str_container = (\<lambda>v. ''[]''),
      float_of_str = (\<lambda>s. Inl (PyExc ''ValueError'' ''could not convert string to float'')),
      float_of_int = (\<lambda>i. Inr 0),
      int_of_float = (\<lambda>f. Inr 0),
      fault = (\<lambda>operation type_name.
                 PyExc ''TypeError'' (type_name @ '' does not support '' @ operation))\<rparr>"

text \<open>A user table with one row, for the identifier 42.\<close>

definition one_user_store :: supabase_client where
  "one_user_store q =
     (if q = user_profile_query ''42''
      then Inr [[(''id'', JStr ''42''), (''full_name'', JStr ''Ada Lovelace''),
                 (''email'', JStr ''ada@example.org'')]]
      else Inr [])"

text \<open>
  A store holding rows in insertion order, which answers a query the way the request
  asks: the rows whose columns equal the given values, ordered on the requested column
  (an integer time stamp here), descending when asked so. An insert is answered with the
  inserted row.
\<close>

definition time_of :: "string \<Rightarrow> row \<Rightarrow> int" where
  "time_of column r = (case map_of r column of Some (JInt t) \<Rightarrow> t | _ \<Rightarrow> 0)"

definition matches :: "(string \<times> string) list \<Rightarrow> row \<Rightarrow> bool" where
  "matches eqs r = list_all (\<lambda>(column, v). map_of r column = Some (JStr v)) eqs"

fun records_store :: "row list \<Rightarrow> supabase_client" where
  "records_store rows (Select t cols eqs None) = Inr (filter (matches eqs) rows)"
| "records_store rows (Select t cols eqs (Some (column, desc))) =
     Inr (if desc then rev (sort_key (time_of column) (filter (matches eqs) rows))
          else sort_key (time_of column) (filter (matches eqs) rows))"
| "records_store rows (Insert t r) = Inr [r]"




text \<open>A doctor directory that answers every request with six doctors, and an environment
  with its API key.\<close>

definition doctor_named :: "string \<Rightarrow> json" where
  "doctor_named n = JObj [(''profile'', JObj [(''first_name'', JStr n)])]"

definition six_doctors :: "json list" where
  "six_doctors = map doctor_named [''A'', ''B'', ''C'', ''D'', ''E'', ''F'']"

definition directory_http :: http_client where
  "directory_http r =
     Inr \<lparr>raise_for_status = None, json_of = Inr (JObj [(''data'', JArr six_doctors)])\<rparr>"

definition keyed_env :: environ where
  "keyed_env = map_of [(''DOCTOR_API_KEY'', ''secret'')]"

section \<open>Notions used in the statements\<close>


section \<open>Start-up check\<close>

text \<open>
  C3, as stated: when a required key is absent from the environment, start-up exits with
  a non-zero status and the output names exactly the absent keys. The code tests
  \<^verbatim>\<open>not os.getenv(var)\<close>, which also holds for a variable set to the empty string. In the
  environment below \<^verbatim>\<open>DOCTOR_API_KEY\<close> is the only absent key and \<^verbatim>\<open>SUPABASE_URL\<close> is set,
  to the empty string; the output names both.
\<close>

theorem main_names_empty_key_counterexample:
  "main (map_of [(''SUPABASE_URL'', ''''), (''SUPABASE_ANON_KEY'', ''k''),
                 (''SKIN_ANALYSIS_API_KEY'', ''s'')])
     = ([''Missing required environment variables: SUPABASE_URL, DOCTOR_API_KEY'',
         ''Please set these variables before running the server.''], Exit 1)
   \<and> map_of [(''SUPABASE_URL'', ''''), (''SUPABASE_ANON_KEY'', ''k''),
              (''SKIN_ANALYSIS_API_KEY'', ''s'')] ''SUPABASE_URL'' = Some ''''"
  by (simp add: main_def required_env_vars_def getenv_truthy_def)

text \<open>
  C3, amended: when one of the four required keys is absent or set to the empty string,
  start-up prints two lines and exits with status 1 without running the server, and the
  first line names exactly the keys that are absent or empty: all of them, no others, in
  the order of the required list.
\<close>

theorem main_missing_keys:
  assumes "\<exists>var \<in> set required_env_vars. env var = None \<or> env var = Some []"
  shows "main env =
           ([''Missing required environment variables: '' @
               join '', '' (filter (\<lambda>var. env var = None \<or> env var = Some []) required_env_vars),
             ''Please set these variables before running the server.''], Exit 1)"
proof -
  have eq: "(\<lambda>var. \<not> getenv_truthy env var) = (\<lambda>var. env var = None \<or> env var = Some [])"
    by (auto simp: getenv_truthy_def fun_eq_iff split: option.splits)
  from assms have "filter (\<lambda>var. env var = None \<or> env var = Some []) required_env_vars \<noteq> []"
    by (auto simp: filter_empty_conv)
  then show ?thesis
    unfolding main_def Let_def eq by simp
qed

theorem main_missing_keys_witness:
  "(\<exists>var \<in> set required_env_vars. demo_env var = None \<or> demo_env var = Some [])
   \<and> main demo_env =
       ([''Missing required environment variables: DOCTOR_API_KEY, SKIN_ANALYSIS_API_KEY'',
         ''Please set these variables before running the server.''], Exit 1)"
proof -
  have h: "\<exists>var \<in> set required_env_vars. demo_env var = None \<or> demo_env var = Some []"
    by (simp add: required_env_vars_def demo_env_def)
  have f: "filter (\<lambda>var. demo_env var = None \<or> demo_env var = Some []) required_env_vars
             = [''DOCTOR_API_KEY'', ''SKIN_ANALYSIS_API_KEY'']"
    by (simp add: required_env_vars_def demo_env_def)
  show ?thesis
    using h main_missing_keys [OF h] unfolding f by simp
qed

section \<open>Lifecycle\<close>

text \<open>
  C4: on every exit path of the lifecycle scope, whether the server body ends normally or
  with an exception, the HTTP client's close operation runs exactly once: once the context
  has been yielded, the events of the lifespan hold exactly one \<open>Aclose\<close>, and it is the
  last event.
\<close>

theorem app_lifespan_closes_once:
  assumes "Yield \<in> set (fst (app_lifespan env rt body))"
  shows "count_list (fst (app_lifespan env rt body)) Aclose = 1
       \<and> last (fst (app_lifespan env rt body)) = Aclose"
  using assms
  by (auto simp: app_lifespan_def Let_def split: if_splits sum.splits option.splits)

theorem app_lifespan_closes_once_witness:
  "Yield \<in> set (fst (app_lifespan demo_env demo_runtime crashing_server))
   \<and> snd (app_lifespan demo_env demo_runtime crashing_server)
       = Some (PyExc ''RuntimeError'' ''server loop failed'')
   \<and> count_list (fst (app_lifespan demo_env demo_runtime crashing_server)) Aclose = 1
   \<and> last (fst (app_lifespan demo_env demo_runtime crashing_server)) = Aclose"
proof -
  have y: "Yield \<in> set (fst (app_lifespan demo_env demo_runtime crashing_server))"
    by (simp add: app_lifespan_def demo_env_def demo_runtime_def getenv_truthy_def)
  have s: "snd (app_lifespan demo_env demo_runtime crashing_server)
             = Some (PyExc ''RuntimeError'' ''server loop failed'')"
    by (simp add: app_lifespan_def demo_env_def demo_runtime_def getenv_truthy_def
                  crashing_server_def)
  show ?thesis using y s app_lifespan_closes_once [OF y] by simp
qed

text \<open>
  C5: the configuration check comes before any client is constructed, and a failed check
  ends the lifespan with an exception, no event and no run of the server body. When the
  check passes, the data-store client is constructed first, from the two configured
  values; then the HTTP client, with a timeout of 30 seconds; a constructor that raises
  is not called again, and its exception ends the lifespan.
\<close>

theorem app_lifespan_initialization:
  "(\<not> getenv_truthy env ''SUPABASE_URL'' \<or> \<not> getenv_truthy env ''SUPABASE_ANON_KEY'' \<longrightarrow>
      app_lifespan env rt body = ([], Some config_error))
   \<and> (env ''SUPABASE_URL'' = Some url \<and> url \<noteq> [] \<and>
      env ''SUPABASE_ANON_KEY'' = Some key \<and> key \<noteq> [] \<longrightarrow>
      (\<forall>e. create_client rt url key = Inl e \<longrightarrow>
           app_lifespan env rt body = ([CreateClient url key], Some e))
    \<and> (\<forall>sb e. create_client rt url key = Inr sb \<and> AsyncClient rt 30 = Inl e \<longrightarrow>
           app_lifespan env rt body = ([CreateClient url key, NewAsyncClient 30], Some e))
    \<and> (\<forall>sb hc. create_client rt url key = Inr sb \<and> AsyncClient rt 30 = Inr hc \<longrightarrow>
           fst (app_lifespan env rt body)
             = [CreateClient url key, NewAsyncClient 30, Yield, Aclose]))"
  by (auto simp: app_lifespan_def getenv_truthy_def Let_def)

theorem app_lifespan_initialization_witness:
  "app_lifespan Map.empty demo_runtime crashing_server = ([], Some config_error)
   \<and> app_lifespan demo_env no_store_runtime crashing_server =
        ([CreateClient ''https://db.example'' ''anon''],
         Some (PyExc ''SupabaseException'' ''Invalid URL''))
   \<and> fst (app_lifespan demo_env demo_runtime crashing_server) =
        [CreateClient ''https://db.example'' ''anon'', NewAsyncClient 30, Yield, Aclose]"
  using app_lifespan_initialization
          [of Map.empty demo_runtime crashing_server "''''" "''''"]
        app_lifespan_initialization
          [of demo_env no_store_runtime crashing_server "''https://db.example''" "''anon''"]
        app_lifespan_initialization
          [of demo_env demo_runtime crashing_server "''https://db.example''" "''anon''"]
  by (simp add: demo_env_def demo_runtime_def no_store_runtime_def getenv_truthy_def)

section \<open>Facts shared by the proofs about handlers\<close>

lemma caught_Inr [simp]: "caught b a (Inr s) = Inr s"
  by (simp add: caught_def)

lemma caught_Inl [simp]: "caught b a (Inl e) = Inr (b @ exc_str e @ a)"
  by (simp add: caught_def)

lemma and_then_Inr [simp]: "and_then (Inr x) f = f x"
  by (simp add: and_then_def)

lemma and_then_Inl [simp]: "and_then (Inl e) f = Inl e"
  by (simp add: and_then_def)




section \<open>Resources\<close>







section \<open>Saving an interaction\<close>

text \<open>
  C10: every request \<^verbatim>\<open>save_user_interaction\<close> sends is an insert into
  \<^verbatim>\<open>user_interactions\<close> of a record with exactly four fields: \<^verbatim>\<open>user_id\<close>,
  \<^verbatim>\<open>interaction_type\<close> and \<^verbatim>\<open>details\<close> as given in the call, and \<^verbatim>\<open>timestamp\<close> with the
  literal string \<^verbatim>\<open>now()\<close>. The tool returns its success string if and only if the insert
  was answered with non-empty data.
\<close>

theorem save_user_interaction_record:
  "(\<forall>c \<in> set (snd (save_user_interaction lc user_id interaction_type details)).
       c = Db (Insert ''user_interactions''
                 [(''user_id'', JStr user_id), (''interaction_type'', JStr interaction_type),
                  (''details'', JStr details), (''timestamp'', JStr ''now()'')]))
   \<and> (fst (save_user_interaction lc user_id interaction_type details)
         = Inr (u_white_heavy_check_mark @ '' Interaction saved successfully for user '' @ user_id)
       \<longleftrightarrow> (\<exists>db rows. subscript_supabase lc = Inr db \<and>
              db (interaction_insert user_id interaction_type details) = Inr rows \<and> rows \<noteq> []))"
proof (cases "subscript_supabase lc")
  case (Inl e)
  then show ?thesis by (simp add: save_user_interaction_def)
next
  case (Inr db)
  show ?thesis
  proof (cases "db (interaction_insert user_id interaction_type details)")
    case (Inl e)
    with Inr show ?thesis
      by (simp add: save_user_interaction_def interaction_insert_def
                    u_white_heavy_check_mark_def)
  next
    case rows: (Inr rows)
    show ?thesis
    proof (cases rows)
      case Nil
      with Inr rows show ?thesis
        by (simp add: save_user_interaction_def interaction_insert_def
                      u_white_heavy_check_mark_def u_cross_mark_def)
    next
      case (Cons r rs)
      with Inr rows show ?thesis
        by (simp add: save_user_interaction_def interaction_insert_def interaction_saved_def)
    qed
  qed
qed

theorem save_user_interaction_record_witness:
  "snd (save_user_interaction (Mapping (Some (records_store [])) None)
          ''42'' ''search'' ''looked for a doctor'')
     = [Db (Insert ''user_interactions''
                 [(''user_id'', JStr ''42''), (''interaction_type'', JStr ''search''),
                  (''details'', JStr ''looked for a doctor''), (''timestamp'', JStr ''now()'')])]
   \<and> fst (save_user_interaction (Mapping (Some (records_store [])) None)
            ''42'' ''search'' ''looked for a doctor'')
         = Inr (u_white_heavy_check_mark @ '' Interaction saved successfully for user 42'')
   \<and> fst (save_user_interaction (Mapping (Some empty_store) None)
            ''42'' ''search'' ''looked for a doctor'')
         \<noteq> Inr (u_white_heavy_check_mark @ '' Interaction saved successfully for user 42'')"
proof -
  let ?r = "save_user_interaction (Mapping (Some (records_store [])) None)
              ''42'' ''search'' ''looked for a doctor''"
  let ?ins = "Db (Insert ''user_interactions''
                 [(''user_id'', JStr ''42''), (''interaction_type'', JStr ''search''),
                  (''details'', JStr ''looked for a doctor''), (''timestamp'', JStr ''now()'')])"
  note A = save_user_interaction_record
             [of "Mapping (Some (records_store [])) None" "''42''" "''search''"
                 "''looked for a doctor''"]
  note B = save_user_interaction_record
             [of "Mapping (Some empty_store) None" "''42''" "''search''"
                 "''looked for a doctor''"]
  have len: "length (snd ?r) = 1"
    by (simp add: save_user_interaction_def)
  then obtain c where c: "snd ?r = [c]"
    by (cases "snd ?r") auto
  with A have "c = ?ins" by simp
  with c have 1: "snd ?r = [?ins]" by simp
  have 2: "fst ?r = Inr (u_white_heavy_check_mark @ '' Interaction saved successfully for user 42'')"
    using A by (simp add: interaction_insert_def)
  have 3: "fst (save_user_interaction (Mapping (Some empty_store) None)
                  ''42'' ''search'' ''looked for a doctor'')
         \<noteq> Inr (u_white_heavy_check_mark @ '' Interaction saved successfully for user 42'')"
    using B by (simp add: empty_store_def)
  show ?thesis using 1 2 3 by blast
qed

section \<open>Doctor search\<close>








section \<open>The API key of the proxying tools\<close>

text \<open>\<^verbatim>\<open>search_nearby_doctors\<close> and \<^verbatim>\<open>analyze_skin_condition_image\<close> test the key they read:
  without it they return their "not configured" string and send no request.\<close>

lemma api_key_checked:
  assumes "subscript_http_client lc = Inr http"
  shows "\<not> getenv_truthy env ''DOCTOR_API_KEY'' \<Longrightarrow>
           search_nearby_doctors B env lc latitude longitude specialty radius_miles
             = (Inr ''Doctor API key not configured. Please contact administrator.'', [])"
    and "\<not> getenv_truthy env ''SKIN_ANALYSIS_API_KEY'' \<Longrightarrow>
           analyze_skin_condition_image B env lc image_data
             = (Inr ''Skin analysis API not configured. Please contact administrator.'', [])"
  using assms
  by (simp_all add: search_nearby_doctors_def analyze_skin_condition_image_def)

text \<open>
  C2 says that every tool that proxies an external service returns a "not configured"
  string, without a network call, when its API key is absent, \<^verbatim>\<open>get_doctor_availability\<close>
  included. \<^verbatim>\<open>get_doctor_availability\<close> reads \<^verbatim>\<open>DOCTOR_API_KEY\<close> and does not test it: in an
  empty environment it sends its GET request, with the header \<^verbatim>\<open>Authorization: Bearer None\<close>,
  and returns the appointment slots.
\<close>

theorem get_doctor_availability_without_key:
  "get_doctor_availability Map.empty (Mapping None (Some directory_http)) ''d7''
     = (Inr (availability_text ''d7''),
        [Http (Get ''https://api.betterdoctor.com/2016-05-02/doctors/d7/appointments'' []
                 [(''Authorization'', ''Bearer None'')])])"
  by (simp add: get_doctor_availability_def availability_request_def bearer_def
                directory_http_def)

section \<open>Fault containment\<close>

text \<open>The context the lifespan hands to the running server is always the dataclass
  instance.\<close>

lemma app_lifespan_yields_dataclass:
  "app_lifespan env rt body =
   app_lifespan env rt (\<lambda>lc. case lc of Dataclass c \<Rightarrow> body lc | Mapping s h \<Rightarrow> None)"
  by (simp add: app_lifespan_def Let_def split: sum.splits)

text \<open>
  C1 says that every fault raised in the body of a resource or tool handler is turned
  into a string at the handler boundary. Each handler that uses a client subscripts the
  lifespan context before its \<^verbatim>\<open>try\<close> statement. On the context \<^verbatim>\<open>app_lifespan\<close> yields, an
  \<^verbatim>\<open>AppContext\<close> instance, the subscription raises \<^verbatim>\<open>TypeError\<close>: the two resources and the
  four tools that read the context raise it to their caller, whatever their arguments,
  and send no request.
\<close>

theorem handlers_raise_on_dataclass_context:
  "invoke B env (Dataclass c) (GetUserProfile user_id) = (Raised not_subscriptable, [])
   \<and> invoke B env (Dataclass c) (GetUserMedicalHistory user_id) = (Raised not_subscriptable, [])
   \<and> invoke B env (Dataclass c) (SearchNearbyDoctors latitude longitude specialty radius_miles)
       = (Raised not_subscriptable, [])
   \<and> invoke B env (Dataclass c) (GetDoctorAvailability doctor_id) = (Raised not_subscriptable, [])
   \<and> invoke B env (Dataclass c) (AnalyzeSkinConditionImage image_data)
       = (Raised not_subscriptable, [])
   \<and> invoke B env (Dataclass c) (SaveUserInteraction user_id interaction_type details)
       = (Raised not_subscriptable, [])"
  by (simp add: text_result_def get_user_profile_def get_user_medical_history_def
                search_nearby_doctors_def get_doctor_availability_def
                analyze_skin_condition_image_def save_user_interaction_def)

text \<open>Past the lookup, every exception is caught: a resource or tool that finds both
  clients in its context returns a string, whatever the clients do.\<close>

lemma text_of_caught: "\<exists>s. fst (text_result (caught b a r, l)) = Text s"
  by (cases r) (simp_all add: text_result_def)

lemma text_of_Inr: "fst (text_result (Inr s, l)) = Text s"
  by (simp add: text_result_def)

lemma faults_contained_with_clients:
  assumes "subscript_supabase lc = Inr db" and "subscript_http_client lc = Inr http"
      and "kind_of op \<noteq> Prompt"
  shows "\<exists>s. fst (invoke B env lc op) = Text s"
proof (cases op)
  case (GetUserProfile u)
  with assms(1) show ?thesis
    by (simp add: get_user_profile_def text_of_caught)
next
  case (GetUserMedicalHistory u)
  with assms(1) show ?thesis
    by (simp add: get_user_medical_history_def text_of_caught)
next
  case (SearchNearbyDoctors la lo s r)
  with assms(2) show ?thesis
    by (simp add: search_nearby_doctors_def Let_def text_of_caught text_of_Inr)
next
  case (GetDoctorAvailability d)
  with assms(2) show ?thesis
    by (simp add: get_doctor_availability_def text_of_caught)
next
  case (AnalyzeSkinConditionImage i)
  with assms(2) show ?thesis
    by (simp add: analyze_skin_condition_image_def Let_def text_of_caught text_of_Inr)
next
  case (CreateAppointmentBookingResource d w)
  then show ?thesis by simp
next
  case (SaveUserInteraction u t d)
  with assms(1) show ?thesis
    by (simp add: save_user_interaction_def text_of_caught)
next
  case (SkincareProductConsultation s c b)
  with assms(3) show ?thesis by simp
next
  case (AppointmentWorkflowPrompt d s)
  with assms(3) show ?thesis by simp
qed

section \<open>Prompts\<close>

text \<open>
  C9: a prompt is a function of its declared arguments only. Invoked through the registry
  with any two interpreters, environments and lifespan contexts, a prompt-kind operation
  gives the same result, an ordered list of messages, and sends no request to the data
  store or over HTTP.
\<close>

theorem prompts_ignore_context:
  assumes "kind_of op = Prompt"
  shows "invoke B env lc op = invoke B' env' lc' op
       \<and> snd (invoke B env lc op) = []
       \<and> (\<exists>messages. fst (invoke B env lc op) = Messages messages)"
  using assms by (cases op) simp_all

theorem prompts_ignore_context_witness:
  "kind_of (AppointmentWorkflowPrompt ''Dr. Grey'' ''dermatology'') = Prompt
   \<and> invoke zero_builtins Map.empty
        (Dataclass \<lparr>supabase = empty_store, http_client = refusing_http\<rparr>)
        (AppointmentWorkflowPrompt ''Dr. Grey'' ''dermatology'')
     = invoke zero_builtins keyed_env (Mapping (Some one_user_store) (Some directory_http))
        (AppointmentWorkflowPrompt ''Dr. Grey'' ''dermatology'')
   \<and> snd (invoke zero_builtins Map.empty
        (Dataclass \<lparr>supabase = empty_store, http_client = refusing_http\<rparr>)
        (AppointmentWorkflowPrompt ''Dr. Grey'' ''dermatology'')) = []"
proof -
  have k: "kind_of (AppointmentWorkflowPrompt ''Dr. Grey'' ''dermatology'') = Prompt" by simp
  from prompts_ignore_context [OF k, of zero_builtins Map.empty
         "Dataclass \<lparr>supabase = empty_store, http_client = refusing_http\<rparr>"
         zero_builtins keyed_env "Mapping (Some one_user_store) (Some directory_http)"]
  show ?thesis using k by blast
qed

end
